theory Spec2Isabelle
  imports Complex_Main
begin

section \<open>Values and errors of the Python sources\<close>

text \<open>
  The sources are \<^verbatim>\<open>heuristics.py\<close> (class \<^verbatim>\<open>Heuristic\<close>) and
  \<^verbatim>\<open>isolation_utilities.py\<close> (function \<^verbatim>\<open>argmax\<close>), read as Python 3: the
  operator \<^verbatim>\<open>/\<close> on two ints is true division.

  A raised exception is the left summand of the result. The first four constructors are
  the built-in exceptions the sources can raise (\<^verbatim>\<open>0/0\<close>, a missing dictionary key,
  \<^verbatim>\<open>seq[0]\<close> on an empty list, \<^verbatim>\<open>>\<close> between an int and a list). The last
  three are the error names of the specification's taxonomy; no statement of the sources
  raises them, and they are declared only so that the specification's sentences about them
  can be written down.
\<close>

datatype py_error =
    ZeroDivisionError
  | KeyError string
  | IndexError
  | TypeError
  | UnknownStrategyError string "string list"
  | NoLegalMovesError
  | EmptySequenceError

text \<open>
  A Python float as \<^verbatim>\<open>score\<close> returns it: one of the two infinities
  (\<^verbatim>\<open>float('-inf')\<close>, \<^verbatim>\<open>float('inf')\<close>) or a finite number. A finite float
  is the real number it denotes. The quotient of \<^verbatim>\<open>action_mobility\<close> and the
  difference of \<^verbatim>\<open>action_focus\<close> are kept as the exact real numbers. The products
  and the difference of \<^verbatim>\<open>the_super_duper_hugo_heuristic\<close>, whose value depends on
  how each operation rounds, are rounded as double arithmetic rounds them.
\<close>

datatype py_float = NegInf | Finite real | PosInf

text \<open>
  Rounding to the nearest double, ties to the even significand. A double has a significand
  of 53 bits: a positive number is scaled by powers of 2 into the interval from \<open>2^52\<close>
  to \<open>2^53\<close>, where the doubles are the integers, rounded there, and scaled back. The
  exponent is not bounded: overflow and underflow, which need magnitudes beyond
  \<open>10^308\<close> or below \<open>10^-308\<close>, are outside the model.
\<close>

definition round_even :: "real \<Rightarrow> int" where
  "round_even q =
     (let n = \<lfloor>q\<rfloor>; r = q - of_int n
      in if r < 1 / 2 then n
         else if 1 / 2 < r then n + 1
         else if even n then n else n + 1)"

function fl_big :: "real \<Rightarrow> real" where
  "fl_big a = (if 2 ^ 53 \<le> a then 2 * fl_big (a / 2) else of_int (round_even a))"
  by pat_completeness auto
termination
proof (relation "measure (\<lambda>a. nat \<lfloor>a\<rfloor>)")
  show "wf (measure (\<lambda>a::real. nat \<lfloor>a\<rfloor>))" by simp
next
  fix a :: real
  assume a: "2 ^ 53 \<le> a"
  then have two: "2 \<le> a" by simp
  have "of_int \<lfloor>a / 2\<rfloor> \<le> a / 2" by (rule of_int_floor_le)
  with two have "of_int (\<lfloor>a / 2\<rfloor> + 1) \<le> a" by simp
  then have "\<lfloor>a / 2\<rfloor> + 1 \<le> \<lfloor>a\<rfloor>" by (simp only: le_floor_iff)
  then have "\<lfloor>a / 2\<rfloor> < \<lfloor>a\<rfloor>" by simp
  moreover have "0 < \<lfloor>a\<rfloor>" using two by simp
  ultimately show "(a / 2, a) \<in> measure (\<lambda>a. nat \<lfloor>a\<rfloor>)" by simp
qed

function fl_pos :: "real \<Rightarrow> real" where
  "fl_pos a =
     (if a \<le> 0 then 0
      else if a < 2 ^ 52 then fl_pos (2 * a) / 2
      else fl_big a)"
  by pat_completeness auto
termination
proof (relation "measure (\<lambda>a. nat \<lceil>2 ^ 52 / a\<rceil>)")
  show "wf (measure (\<lambda>a::real. nat \<lceil>2 ^ 52 / a\<rceil>))" by simp
next
  fix a :: real
  assume "\<not> a \<le> 0" and "a < 2 ^ 52"
  define y where "y = 2 ^ 52 / a"
  have y: "1 < y"
    using \<open>\<not> a \<le> 0\<close> \<open>a < 2 ^ 52\<close> by (simp add: y_def)
  have half: "2 ^ 52 / (2 * a) = y / 2"
    by (simp add: y_def)
  have c2: "1 < \<lceil>y\<rceil>"
    using y by (simp add: less_ceiling_iff)
  have up: "y \<le> of_int \<lceil>y\<rceil>"
    by (rule le_of_int_ceiling)
  from c2 have "2 \<le> \<lceil>y\<rceil>"
    by simp
  then have two: "(2::real) \<le> of_int \<lceil>y\<rceil>"
    by (simp only: of_int_le_iff [symmetric, where 'a = real] of_int_numeral)
  from up two have "y / 2 \<le> of_int \<lceil>y\<rceil> - 1"
    by linarith
  then have "y / 2 \<le> of_int (\<lceil>y\<rceil> - 1)"
    by (simp only: of_int_diff of_int_1)
  then have "\<lceil>y / 2\<rceil> \<le> \<lceil>y\<rceil> - 1"
    by (simp only: ceiling_le_iff)
  with c2 have "nat \<lceil>y / 2\<rceil> < nat \<lceil>y\<rceil>"
    by simp
  then show "(2 * a, a) \<in> measure (\<lambda>a. nat \<lceil>2 ^ 52 / a\<rceil>)"
    unfolding half [symmetric] y_def by simp
qed

definition fl :: "real \<Rightarrow> real" where
  "fl x = (if x < 0 then - fl_pos (- x) else fl_pos x)"

section \<open>The board interface\<close>

text \<open>
  Modelled from the spec: the class \<^verbatim>\<open>isolation.Board\<close> is imported by
  \<^verbatim>\<open>heuristics.py\<close> and is not among the sources. Its interface (section 6 of the
  specification) is taken as a parameter: one field per query the strategies call, each a
  function of the state it is called on. The optional argument of
  \<^verbatim>\<open>get_legal_moves(player=None)\<close> is an option; \<open>None\<close> is the call without an
  argument.
\<close>

record ('s, 'p, 'm, 'c) board =
  width :: "'s \<Rightarrow> int"
  height :: "'s \<Rightarrow> int"
  active_player :: "'s \<Rightarrow> 'p"
  inactive_player :: "'s \<Rightarrow> 'p"
  get_opponent :: "'s \<Rightarrow> 'p \<Rightarrow> 'p"
  get_legal_moves :: "'s \<Rightarrow> 'p option \<Rightarrow> 'm list"
  get_blank_spaces :: "'s \<Rightarrow> 'c list"
  forecast_move :: "'s \<Rightarrow> 'm \<Rightarrow> 's"
  is_loser :: "'s \<Rightarrow> 'p \<Rightarrow> bool"
  is_winner :: "'s \<Rightarrow> 'p \<Rightarrow> bool"

text \<open>
  Modelled from the spec: what the specification says of the absent board and the theorems
  below assume of it, state by state. With two participants, the opponent of the inactive
  player is the active player, and a legal-move query without an argument is the query for
  the active player (section 6: \<^verbatim>\<open>get_legal_moves(player = active by default)\<close>).
\<close>

definition two_player :: "('s, 'p, 'm, 'c) board \<Rightarrow> 's \<Rightarrow> bool" where
  "two_player B state \<longleftrightarrow>
     get_opponent B state (inactive_player B state) = active_player B state \<and>
     get_legal_moves B state None = get_legal_moves B state (Some (active_player B state))"

text \<open>
  Modelled from the spec: the invariant of section 3, no state marks one player both a
  loser and a winner.
\<close>

definition no_draw :: "('s, 'p, 'm, 'c) board \<Rightarrow> 's \<Rightarrow> 'p \<Rightarrow> bool" where
  "no_draw B state p \<longleftrightarrow> \<not> (is_loser B state p \<and> is_winner B state p)"

section \<open>The class Heuristic\<close>

text \<open>The object of \<^verbatim>\<open>__init__\<close>: it stores its two arguments.\<close>

record ('s, 'p) heuristic =
  game :: 's
  player :: 'p

definition init :: "'s \<Rightarrow> 'p \<Rightarrow> ('s, 'p) heuristic" where
  "init g p = \<lparr>game = g, player = p\<rparr>"

subsection \<open>action_mobility\<close>

text \<open>
  The loop over \<^verbatim>\<open>states_one_step_ahead\<close>, with \<^verbatim>\<open>best_moves_ahead\<close> as the
  accumulator; \<open>num_new_moves\<close> is the count the loop body takes of each forecast state.
\<close>

definition num_new_moves :: "('s, 'p, 'm, 'c) board \<Rightarrow> 's \<Rightarrow> int" where
  "num_new_moves B future_state =
     int (length (get_legal_moves B future_state (Some (inactive_player B future_state))))"

fun best_moves_loop :: "('s, 'p, 'm, 'c) board \<Rightarrow> 's list \<Rightarrow> int \<Rightarrow> int" where
  "best_moves_loop B [] best_moves_ahead = best_moves_ahead"
| "best_moves_loop B (future_state # rest) best_moves_ahead =
     best_moves_loop B rest (max best_moves_ahead (num_new_moves B future_state))"

definition action_mobility ::
  "('s, 'p, 'm, 'c) board \<Rightarrow> ('s, 'p) heuristic \<Rightarrow> 's \<Rightarrow> py_error + real" where
  "action_mobility B self state =
     (let legal_moves = get_legal_moves B state None;
          states_one_step_ahead = map (forecast_move B state) legal_moves;
          best_moves_ahead = best_moves_loop B states_one_step_ahead 0
      in if length legal_moves = 0 then Inl ZeroDivisionError
         else Inr (real_of_int best_moves_ahead / real (length legal_moves)))"

subsection \<open>the_super_duper_hugo_heuristic\<close>

text \<open>
  The optional argument \<^verbatim>\<open>weight=2.5\<close> is an option; \<open>None\<close> takes the default.
  The weight is a float. In \<^verbatim>\<open>(player_moves - weight * opponent_moves) * filled_spaces\<close>
  each int operand is converted to a float and each of the three operations rounds its
  result; the \<^verbatim>\<open>float\<close> around the whole is then the identity.
\<close>

definition filled_spaces :: "('s, 'p, 'm, 'c) board \<Rightarrow> 's \<Rightarrow> int" where
  "filled_spaces B state =
     width B state * height B state - int (length (get_blank_spaces B state))"

definition the_super_duper_hugo_heuristic ::
  "('s, 'p, 'm, 'c) board \<Rightarrow> ('s, 'p) heuristic \<Rightarrow> 's \<Rightarrow> real option \<Rightarrow> py_error + real" where
  "the_super_duper_hugo_heuristic B self state weight_arg =
     (let weight = (case weight_arg of None \<Rightarrow> 2.5 | Some w \<Rightarrow> w);
          filled_spaces = filled_spaces B state;
          player_moves = int (length (get_legal_moves B state None));
          opponent_moves =
            int (length (get_legal_moves B state
                           (Some (get_opponent B state (inactive_player B state)))))
      in Inr (fl (fl (fl (real_of_int player_moves)
                        - fl (weight * fl (real_of_int opponent_moves)))
                    * fl (real_of_int filled_spaces))))"

subsection \<open>action_focus\<close>

definition action_focus ::
  "('s, 'p, 'm, 'c) board \<Rightarrow> ('s, 'p) heuristic \<Rightarrow> 's \<Rightarrow> py_error + real" where
  "action_focus B self state =
     (case action_mobility B self state of
        Inl e \<Rightarrow> Inl e
      | Inr v \<Rightarrow> Inr (1 - v))"

subsection \<open>score\<close>

text \<open>
  The dictionary \<^verbatim>\<open>methods\<close> that \<^verbatim>\<open>score\<close> builds: three keys, each bound to a
  method of the object. \<^verbatim>\<open>state_focus\<close> is a method of the class and not a key.
\<close>

definition methods ::
  "('s, 'p, 'm, 'c) board \<Rightarrow> ('s, 'p) heuristic \<Rightarrow> string \<rightharpoonup> ('s \<Rightarrow> py_error + real)" where
  "methods B self =
     [''action_mobility'' \<mapsto> action_mobility B self,
      ''action_focus'' \<mapsto> action_focus B self,
      ''the_super_duper_hugo_heuristic'' \<mapsto>
        (\<lambda>state. the_super_duper_hugo_heuristic B self state None)]"

definition registered :: "string list" where
  "registered = [''action_mobility'', ''action_focus'', ''the_super_duper_hugo_heuristic'']"

text \<open>
  \<^verbatim>\<open>score(self, state, player, method='action_mobility')\<close>: the two terminal tests,
  then the lookup \<^verbatim>\<open>methods[method]\<close>, which raises \<^verbatim>\<open>KeyError(method)\<close> on a
  missing key, then the call of the strategy found.
\<close>

definition score ::
  "('s, 'p, 'm, 'c) board \<Rightarrow> ('s, 'p) heuristic \<Rightarrow> 's \<Rightarrow> 'p \<Rightarrow> string option
     \<Rightarrow> py_error + py_float" where
  "score B self state p method_arg =
     (let method = (case method_arg of None \<Rightarrow> ''action_mobility'' | Some m \<Rightarrow> m)
      in if is_loser B state p then Inr NegInf
         else if is_winner B state p then Inr PosInf
         else (case methods B self method of
                 None \<Rightarrow> Inl (KeyError method)
               | Some strategy \<Rightarrow>
                   (case strategy state of
                      Inl e \<Rightarrow> Inl e
                    | Inr v \<Rightarrow> Inr (Finite v))))"

section \<open>The utility argmax\<close>

text \<open>
  \<^verbatim>\<open>argmax\<close> applies \<^verbatim>\<open>fn\<close> to the whole sequence and to its elements, and compares
  the results with \<^verbatim>\<open>>\<close>. The values are therefore Python values: ints and lists.
\<close>

datatype py_val = PInt int | PList "py_val list"

text \<open>
  Python's \<^verbatim>\<open>a > b\<close>: on two ints the order of the integers; on two lists the
  comparison of the first pair of unequal elements, or of the lengths when one list is a
  prefix of the other; between an int and a list a \<^verbatim>\<open>TypeError\<close>.
\<close>

fun py_gt :: "py_val \<Rightarrow> py_val \<Rightarrow> py_error + bool" where
  "py_gt (PInt a) (PInt b) = Inr (a > b)"
| "py_gt (PList []) (PList ys) = Inr False"
| "py_gt (PList (x # xs)) (PList []) = Inr True"
| "py_gt (PList (x # xs)) (PList (y # ys)) =
     (if x = y then py_gt (PList xs) (PList ys) else py_gt x y)"
| "py_gt (PInt a) (PList ys) = Inl TypeError"
| "py_gt (PList xs) (PInt b) = Inl TypeError"

text \<open>The loop \<^verbatim>\<open>for i in seq\<close>, with \<^verbatim>\<open>best\<close> and \<^verbatim>\<open>best_score\<close> as accumulators.\<close>

fun argmax_loop ::
  "(py_val \<Rightarrow> py_error + py_val) \<Rightarrow> py_val list \<Rightarrow> py_val \<Rightarrow> py_val \<Rightarrow> py_error + py_val" where
  "argmax_loop fn [] best best_score = Inr best"
| "argmax_loop fn (i # rest) best best_score =
     (case fn i of
        Inl e \<Rightarrow> Inl e
      | Inr n_score \<Rightarrow>
          (case py_gt n_score best_score of
             Inl e \<Rightarrow> Inl e
           | Inr True \<Rightarrow> argmax_loop fn rest i n_score
           | Inr False \<Rightarrow> argmax_loop fn rest best best_score))"

text \<open>
  \<^verbatim>\<open>best = seq[0]\<close> raises \<^verbatim>\<open>IndexError\<close> on the empty list;
  \<^verbatim>\<open>best_score = fn(seq)\<close> applies \<^verbatim>\<open>fn\<close> to the list itself.
\<close>

definition argmax :: "py_val list \<Rightarrow> (py_val \<Rightarrow> py_error + py_val) \<Rightarrow> py_error + py_val" where
  "argmax seq fn =
     (case seq of
        [] \<Rightarrow> Inl IndexError
      | best # _ \<Rightarrow>
          (case fn (PList seq) of
             Inl e \<Rightarrow> Inl e
           | Inr best_score \<Rightarrow> argmax_loop fn seq best best_score))"

section \<open>A board given by an explicit game tree\<close>

text \<open>
  An implementation of the board interface on which the theorems are exercised. A state
  lists the moves of the active player, each with the state it leads to, and the moves of
  the inactive player. The active player with no move is the loser and the inactive
  player then the winner; the opponent of one participant is the other.
\<close>

datatype pid = P1 | P2

datatype tree_state =
  Node (t_width: int) (t_height: int) (t_blank: "(int \<times> int) list")
       (t_active: pid) (t_inactive: pid)
       (t_active_moves: "((int \<times> int) \<times> tree_state) list")
       (t_inactive_moves: "(int \<times> int) list")

definition tree_board :: "(tree_state, pid, int \<times> int, int \<times> int) board" where
  "tree_board =
     \<lparr>width = t_width,
      height = t_height,
      active_player = t_active,
      inactive_player = t_inactive,
      get_opponent = (\<lambda>s p. if p = t_active s then t_inactive s else t_active s),
      get_legal_moves = (\<lambda>s arg.
        case arg of
          None \<Rightarrow> map fst (t_active_moves s)
        | Some p \<Rightarrow> if p = t_active s then map fst (t_active_moves s) else t_inactive_moves s),
      get_blank_spaces = t_blank,
      forecast_move = (\<lambda>s m. case map_of (t_active_moves s) m of None \<Rightarrow> s | Some s' \<Rightarrow> s'),
      is_loser = (\<lambda>s p. p = t_active s \<and> t_active_moves s = []),
      is_winner = (\<lambda>s p. p = t_inactive s \<and> t_active_moves s = [])\<rparr>"

text \<open>
  A forecast state of a board of side \<open>n\<close> after a move of \<open>P1\<close>: \<open>P2\<close> is to move,
  and \<open>P1\<close> has the follow-up moves \<open>ms\<close>.
\<close>

definition after_move :: "int \<Rightarrow> (int \<times> int) list \<Rightarrow> tree_state" where
  "after_move n ms = Node n n [] P2 P1 [] ms"

text \<open>\<open>P1\<close> has three moves; they leave it 2, 2 and 3 follow-up moves.\<close>

definition three_moves :: tree_state where
  "three_moves =
     Node 3 3 [] P1 P2
       [((0, 1), after_move 3 [(2, 0), (2, 2)]),
        ((1, 2), after_move 3 [(0, 0), (2, 0)]),
        ((2, 1), after_move 3 [(0, 0), (0, 2), (1, 2)])]
       [(1, 0)]"

text \<open>\<open>P1\<close> has one move; it leaves it 3 follow-up moves.\<close>

definition one_move :: tree_state where
  "one_move =
     Node 3 3 [] P1 P2
       [((2, 1), after_move 3 [(0, 0), (0, 2), (1, 2)])]
       [(1, 0)]"

text \<open>\<open>P1\<close> is to move and has no move: \<open>P1\<close> has lost, \<open>P2\<close> has won.\<close>

definition stuck :: tree_state where
  "stuck = Node 3 3 [(0, 0)] P1 P2 [] [(0, 0)]"

text \<open>
  A 4 by 4 board with 8 blank cells, so 8 filled ones. \<open>P1\<close> stands on (1, 2), is to
  move and has the 4 moves of a knight to a blank cell; its opponent \<open>P2\<close> stands on
  (0, 3) and has 2.
\<close>

definition midgame :: tree_state where
  "midgame =
     Node 4 4 [(0, 0), (1, 1), (2, 0), (2, 2), (3, 0), (3, 1), (3, 2), (3, 3)] P1 P2
       [((0, 0), after_move 4 []), ((2, 0), after_move 4 [(3, 2)]),
        ((3, 1), after_move 4 []), ((3, 3), after_move 4 [])]
       [(1, 1), (2, 2)]"

text \<open>
  The same board later: 6 blank cells, so 10 filled ones; \<open>P1\<close> on (1, 2) is to move
  and has 3 moves, \<open>P2\<close> on (0, 3) has 2.
\<close>

definition endgame :: tree_state where
  "endgame =
     Node 4 4 [(0, 0), (1, 1), (2, 0), (2, 2), (3, 0), (3, 1)] P1 P2
       [((0, 0), after_move 4 []), ((2, 0), after_move 4 []), ((3, 1), after_move 4 [])]
       [(1, 1), (2, 2)]"

text \<open>
  A scoring function for \<open>argmax\<close> that is defined on ints and on lists: an int scores
  itself and a list scores 0. \<open>int_of\<close> is the same score as an integer.
\<close>

fun int_of :: "py_val \<Rightarrow> int" where
  "int_of (PInt n) = n"
| "int_of (PList xs) = 0"

definition int_score :: "py_val \<Rightarrow> py_error + py_val" where
  "int_score v = Inr (PInt (int_of v))"

section \<open>Lemmas on the definitions\<close>

lemma tree_board_two_player: "two_player tree_board s"
  by (simp add: two_player_def tree_board_def)

lemma tree_board_no_draw: "t_active s \<noteq> t_inactive s \<Longrightarrow> no_draw tree_board s p"
  by (auto simp: no_draw_def tree_board_def)

lemma num_new_moves_nonneg: "0 \<le> num_new_moves B f"
  by (simp add: num_new_moves_def)

lemma best_moves_loop_max:
  "best_moves_loop B fs acc = Max (insert acc (num_new_moves B ` set fs))"
proof (induction fs arbitrary: acc)
  case Nil
  show ?case by simp
next
  case (Cons f fs)
  have "Max (insert (max acc (num_new_moves B f)) (num_new_moves B ` set fs)) =
        Max (insert acc (insert (num_new_moves B f) (num_new_moves B ` set fs)))"
  proof (cases "fs = []")
    case True
    then show ?thesis by (simp add: max.commute)
  next
    case False
    then show ?thesis by (simp add: max.assoc)
  qed
  with Cons.IH [of "max acc (num_new_moves B f)"] show ?case by simp
qed

lemma best_moves_loop_zero:
  assumes "fs \<noteq> []"
  shows "best_moves_loop B fs 0 = Max (num_new_moves B ` set fs)"
proof -
  have fin: "finite (num_new_moves B ` set fs)" and ne: "num_new_moves B ` set fs \<noteq> {}"
    using assms by simp_all
  obtain f where "f \<in> set fs"
    using assms by (cases fs) auto
  then have "num_new_moves B f \<le> Max (num_new_moves B ` set fs)"
    using fin by (intro Max_ge) auto
  then have "0 \<le> Max (num_new_moves B ` set fs)"
    using num_new_moves_nonneg [of B f] by linarith
  then show ?thesis
    using fin ne by (simp add: best_moves_loop_max max_def)
qed

lemma action_mobility_nonempty:
  assumes "get_legal_moves B state None \<noteq> []"
  shows "action_mobility B self state =
           Inr (real_of_int
                  (Max (num_new_moves B ` forecast_move B state ` set (get_legal_moves B state None)))
                / real (length (get_legal_moves B state None)))"
  using assms by (simp add: action_mobility_def Let_def best_moves_loop_zero)

lemma action_mobility_empty:
  "get_legal_moves B state None = [] \<Longrightarrow> action_mobility B self state = Inl ZeroDivisionError"
  by (simp add: action_mobility_def)

text \<open>No strategy reads the object it is a method of.\<close>

lemma action_mobility_self: "action_mobility B self = action_mobility B self'"
  by (rule ext) (simp add: action_mobility_def)

lemma action_focus_self: "action_focus B self = action_focus B self'"
  by (rule ext) (simp add: action_focus_def action_mobility_self [of B self self'])

lemma the_super_duper_hugo_heuristic_self:
  "the_super_duper_hugo_heuristic B self = the_super_duper_hugo_heuristic B self'"
  by (intro ext) (simp add: the_super_duper_hugo_heuristic_def)

lemma methods_self: "methods B self = methods B self'"
  unfolding methods_def
  using action_mobility_self [of B self self'] action_focus_self [of B self self']
    the_super_duper_hugo_heuristic_self [of B self self']
  by simp

lemma methods_registered: "methods B self m = None \<longleftrightarrow> m \<notin> set registered"
  by (simp add: methods_def registered_def)

text \<open>
  A number with at most 53 significant bits is a double: rounding leaves it as it is.
\<close>

lemma round_even_of_int: "round_even (of_int m) = m"
  by (simp add: round_even_def)

lemma fl_pos_exact:
  "0 < a \<Longrightarrow> a * 2 ^ k = of_int m \<Longrightarrow> m < 2 ^ 53 \<Longrightarrow> fl_pos a = a"
proof (induction a arbitrary: k m rule: fl_pos.induct)
  case (1 a)
  show ?case
  proof (cases "a < 2 ^ 52")
    case True
    have "fl_pos (2 * a) = 2 * a"
    proof (cases k)
      case 0
      with "1.prems" have am: "a = of_int m" by simp
      with True have "m < 2 ^ 52"
        by (metis of_int_less_iff of_int_numeral of_int_power)
      then have "2 * m < 2 ^ 53" by simp
      moreover have "(2 * a) * 2 ^ 0 = of_int (2 * m)" using am by simp
      ultimately show ?thesis
        using "1.IH" [of 0 "2 * m"] "1.prems"(1) True by simp
    next
      case (Suc j)
      with "1.prems" have "(2 * a) * 2 ^ j = of_int m"
        by (simp add: mult.commute mult.left_commute)
      then show ?thesis
        using "1.IH" [of j m] "1.prems" True by simp
    qed
    then show ?thesis
      using True "1.prems"(1) by (subst fl_pos.simps) simp
  next
    case False
    have "k = 0"
    proof (rule ccontr)
      assume "k \<noteq> 0"
      then have "(2::real) \<le> 2 ^ k" by (cases k) (simp_all add: self_le_power)
      with False "1.prems"(1) have "2 ^ 52 * 2 \<le> a * 2 ^ k"
        by (intro mult_mono) simp_all
      with "1.prems"(2) have "(2::real) ^ 53 \<le> of_int m" by simp
      then have "(2::int) ^ 53 \<le> m"
        by (metis of_int_le_iff of_int_numeral of_int_power)
      with "1.prems"(3) show False by simp
    qed
    with "1.prems" have am: "a = of_int m" by simp
    then have "a < 2 ^ 53" using "1.prems"(3)
      by (metis of_int_less_iff of_int_numeral of_int_power)
    then have "fl_big a = of_int (round_even a)" by (subst fl_big.simps) simp
    then have "fl_big a = a" using am by (simp add: round_even_of_int)
    then show ?thesis
      using False "1.prems"(1) by (subst fl_pos.simps) simp
  qed
qed

lemma fl_exact:
  assumes "x * 2 ^ k = of_int m" and "\<bar>m\<bar> < 2 ^ 53"
  shows "fl x = x"
proof (cases "x < 0")
  case True
  have "(- x) * 2 ^ k = of_int (- m)" using assms(1) by simp
  moreover have "- m < 2 ^ 53" using assms(2) by simp
  ultimately have "fl_pos (- x) = - x" using True fl_pos_exact [of "- x" k "- m"] by simp
  then show ?thesis using True by (simp add: fl_def)
next
  case False
  show ?thesis
  proof (cases "x = 0")
    case True
    then show ?thesis by (simp add: fl_def)
  next
    case nz: False
    with False have "0 < x" by simp
    moreover have "m < 2 ^ 53" using assms(2) by simp
    ultimately have "fl_pos x = x" using assms(1) fl_pos_exact [of x k m] by simp
    then show ?thesis using False by (simp add: fl_def)
  qed
qed

section \<open>The terminal tests of score\<close>

text \<open>
  Claim C1. For every registered strategy identifier, \<open>score\<close> returns negative infinity
  on a state that marks the player a loser, and positive infinity on a state that marks the
  player a winner (where, by the invariant of the states, the player is not also marked a
  loser). The tests stand before the lookup and the call of the strategy: the result does
  not depend on what the strategy would return or raise on that state.
\<close>

theorem score_terminal_registered:
  assumes "m \<in> set registered"
  shows "(is_loser B state p \<longrightarrow> score B self state p (Some m) = Inr NegInf) \<and>
         (is_winner B state p \<and> no_draw B state p \<longrightarrow>
            score B self state p (Some m) = Inr PosInf)"
  by (auto simp: score_def no_draw_def)

text \<open>
  On the state \<open>stuck\<close> the strategy \<^verbatim>\<open>action_mobility\<close> itself raises, and
  \<open>score\<close> still returns the two infinities.
\<close>

theorem score_terminal_registered_witness:
  "''action_mobility'' \<in> set registered \<and>
   is_loser tree_board stuck P1 \<and>
   is_winner tree_board stuck P2 \<and> no_draw tree_board stuck P2 \<and>
   action_mobility tree_board (init stuck P1) stuck = Inl ZeroDivisionError \<and>
   score tree_board (init stuck P1) stuck P1 (Some ''action_mobility'') = Inr NegInf \<and>
   score tree_board (init stuck P1) stuck P2 (Some ''action_mobility'') = Inr PosInf"
proof -
  have reg: "''action_mobility'' \<in> set registered"
    by (simp add: registered_def)
  have l: "is_loser tree_board stuck P1"
    and w: "is_winner tree_board stuck P2" and n: "no_draw tree_board stuck P2"
    by (simp_all add: tree_board_def stuck_def no_draw_def)
  have raises: "action_mobility tree_board (init stuck P1) stuck = Inl ZeroDivisionError"
    by (simp add: action_mobility_def tree_board_def stuck_def)
  from score_terminal_registered [OF reg, of tree_board stuck P1 "init stuck P1"] l
  have a: "score tree_board (init stuck P1) stuck P1 (Some ''action_mobility'') = Inr NegInf"
    by simp
  from score_terminal_registered [OF reg, of tree_board stuck P2 "init stuck P1"] w n
  have b: "score tree_board (init stuck P1) stuck P2 (Some ''action_mobility'') = Inr PosInf"
    by simp
  from reg l w n raises a b show ?thesis by simp
qed

text \<open>
  Claim C9. On a state that marks the player a loser or a winner, \<open>score\<close> returns the
  infinity of that mark for any method argument at all, registered or not and also for the
  default: the dictionary is not consulted there, so no \<^verbatim>\<open>KeyError\<close> comes out.
\<close>

theorem score_terminal_any_method:
  "(is_loser B state p \<longrightarrow> score B self state p method_arg = Inr NegInf) \<and>
   (is_winner B state p \<and> no_draw B state p \<longrightarrow>
      score B self state p method_arg = Inr PosInf) \<and>
   (is_loser B state p \<or> is_winner B state p \<longrightarrow>
      (\<forall>k. score B self state p method_arg \<noteq> Inl (KeyError k)))"
  by (auto simp: score_def no_draw_def Let_def)

theorem score_terminal_any_method_witness:
  "''state_focus'' \<notin> set registered \<and>
   is_loser tree_board stuck P1 \<and>
   is_winner tree_board stuck P2 \<and> no_draw tree_board stuck P2 \<and>
   score tree_board (init stuck P1) stuck P1 (Some ''state_focus'') = Inr NegInf \<and>
   score tree_board (init stuck P1) stuck P2 (Some ''state_focus'') = Inr PosInf \<and>
   score tree_board (init stuck P1) stuck P1 (Some ''state_focus'')
     \<noteq> Inl (KeyError ''state_focus'')"
proof -
  have unreg: "''state_focus'' \<notin> set registered"
    by (simp add: registered_def)
  have l: "is_loser tree_board stuck P1"
    and w: "is_winner tree_board stuck P2" and n: "no_draw tree_board stuck P2"
    by (simp_all add: tree_board_def stuck_def no_draw_def)
  note t1 = score_terminal_any_method
              [of tree_board stuck P1 "init stuck P1" "Some ''state_focus''"]
  note t2 = score_terminal_any_method
              [of tree_board stuck P2 "init stuck P1" "Some ''state_focus''"]
  from t1 l
  have a: "score tree_board (init stuck P1) stuck P1 (Some ''state_focus'') = Inr NegInf"
    by simp
  from t2 w n
  have b: "score tree_board (init stuck P1) stuck P2 (Some ''state_focus'') = Inr PosInf"
    by simp
  from t1 l
  have c: "score tree_board (init stuck P1) stuck P1 (Some ''state_focus'')
             \<noteq> Inl (KeyError ''state_focus'')"
    by blast
  from unreg l w n a b c show ?thesis by simp
qed

section \<open>The player argument of score\<close>

text \<open>
  Claim C8. On a state that marks neither of two players a loser or a winner, \<open>score\<close>
  returns the same result for both, for every method argument: the player argument is read
  by the two terminal tests only. The strategies take the state alone; the player stored
  in the object is not read either, so two different objects give the same result.
\<close>

theorem score_player_independent:
  assumes "\<not> is_loser B state p" and "\<not> is_winner B state p"
    and "\<not> is_loser B state q" and "\<not> is_winner B state q"
  shows "score B self state p method_arg = score B self' state q method_arg"
  using assms by (simp add: score_def Let_def methods_self [of B self self'])

theorem score_player_independent_witness:
  "\<not> is_loser tree_board three_moves P1 \<and> \<not> is_winner tree_board three_moves P1 \<and>
   \<not> is_loser tree_board three_moves P2 \<and> \<not> is_winner tree_board three_moves P2 \<and>
   score tree_board (init three_moves P1) three_moves P1 (Some ''action_focus'') =
     score tree_board (init three_moves P2) three_moves P2 (Some ''action_focus'')"
proof -
  have h: "\<not> is_loser tree_board three_moves P1" "\<not> is_winner tree_board three_moves P1"
    "\<not> is_loser tree_board three_moves P2" "\<not> is_winner tree_board three_moves P2"
    by (simp_all add: tree_board_def three_moves_def)
  from score_player_independent [OF h] h show ?thesis by simp
qed

section \<open>The mobility strategies\<close>



text \<open>
  Claim C5. \<open>action_focus\<close> is 1 minus \<open>action_mobility\<close> wherever the latter returns,
  which is on every state with at least one legal move; with no legal move both raise the
  same exception. The value can be negative.
\<close>

theorem action_focus_complement:
  "(get_legal_moves B state None \<noteq> [] \<longrightarrow>
      (\<exists>v. action_mobility B self state = Inr v \<and> action_focus B self state = Inr (1 - v))) \<and>
   (get_legal_moves B state None = [] \<longrightarrow>
      (\<exists>e. action_mobility B self state = Inl e \<and> action_focus B self state = Inl e)) \<and>
   (\<forall>v. action_mobility B self state = Inr v \<longrightarrow> action_focus B self state = Inr (1 - v))"
  by (auto simp: action_focus_def action_mobility_nonempty action_mobility_empty)

text \<open>On \<open>one_move\<close> the focus is 1 - 3, a negative number; on \<open>stuck\<close> both raise.\<close>

theorem action_focus_complement_witness:
  "get_legal_moves tree_board one_move None \<noteq> [] \<and>
   action_mobility tree_board (init one_move P1) one_move = Inr 3 \<and>
   action_focus tree_board (init one_move P1) one_move = Inr (1 - 3) \<and>
   get_legal_moves tree_board stuck None = [] \<and>
   action_mobility tree_board (init stuck P1) stuck = Inl ZeroDivisionError \<and>
   action_focus tree_board (init stuck P1) stuck = Inl ZeroDivisionError"
proof -
  have ne: "get_legal_moves tree_board one_move None \<noteq> []"
    by (simp add: tree_board_def one_move_def)
  have m: "action_mobility tree_board (init one_move P1) one_move = Inr 3"
    by (simp add: action_mobility_def num_new_moves_def tree_board_def one_move_def
          after_move_def)
  from action_focus_complement [of tree_board one_move "init one_move P1"] m
  have f: "action_focus tree_board (init one_move P1) one_move = Inr (1 - 3)"
    by blast
  have e: "get_legal_moves tree_board stuck None = []"
    by (simp add: tree_board_def stuck_def)
  have z: "action_mobility tree_board (init stuck P1) stuck = Inl ZeroDivisionError"
    using e by (rule action_mobility_empty)
  from action_focus_complement [of tree_board stuck "init stuck P1"] e z
  have g: "action_focus tree_board (init stuck P1) stuck = Inl ZeroDivisionError"
    by auto
  from ne m f e z g show ?thesis by simp
qed

section \<open>Failures of score and action_mobility\<close>

text \<open>
  Claim C6, as the specification states it: for every state and player, \<open>score\<close> with an
  identifier outside the registered ones fails with an \<^verbatim>\<open>UnknownStrategyError\<close> that
  names the identifier and the valid ones. It does not hold: \<^verbatim>\<open>state_focus\<close> is not
  registered; on the lost state \<open>stuck\<close> the call returns negative infinity, and on
  \<open>three_moves\<close> it raises the \<^verbatim>\<open>KeyError\<close> of the dictionary lookup, which
  carries the identifier alone.
\<close>

theorem score_unregistered_counterexample:
  "''state_focus'' \<notin> set registered \<and>
   score tree_board (init stuck P1) stuck P1 (Some ''state_focus'') = Inr NegInf \<and>
   score tree_board (init three_moves P1) three_moves P1 (Some ''state_focus'') =
     Inl (KeyError ''state_focus'') \<and>
   score tree_board (init three_moves P1) three_moves P1 (Some ''state_focus'') \<noteq>
     Inl (UnknownStrategyError ''state_focus'' registered)"
  by (simp add: registered_def score_def methods_def tree_board_def stuck_def three_moves_def)

text \<open>
  Claim C6, amended. On a state that marks the player neither a loser nor a winner,
  \<open>score\<close> with an identifier outside the registered ones raises \<^verbatim>\<open>KeyError\<close>
  carrying that identifier; no strategy is run in its place. \<open>score\<close> computes a result
  from its arguments and changes nothing: the model has no state to return.
\<close>

theorem score_unregistered_key_error:
  assumes "m \<notin> set registered"
    and "\<not> is_loser B state p" and "\<not> is_winner B state p"
  shows "score B self state p (Some m) = Inl (KeyError m)"
proof -
  have "methods B self m = None"
    using assms(1) by (simp add: methods_registered)
  then show ?thesis
    using assms(2,3) by (simp add: score_def)
qed

theorem score_unregistered_key_error_witness:
  "''state_focus'' \<notin> set registered \<and>
   \<not> is_loser tree_board three_moves P2 \<and> \<not> is_winner tree_board three_moves P2 \<and>
   score tree_board (init three_moves P1) three_moves P2 (Some ''state_focus'') =
     Inl (KeyError ''state_focus'')"
proof -
  have h: "''state_focus'' \<notin> set registered"
    "\<not> is_loser tree_board three_moves P2" "\<not> is_winner tree_board three_moves P2"
    by (simp_all add: registered_def tree_board_def three_moves_def)
  from score_unregistered_key_error [OF h] h show ?thesis by simp
qed

text \<open>
  Claim C7, as the specification states it: with no legal move for the active player,
  \<open>action_mobility\<close> fails with a \<^verbatim>\<open>NoLegalMovesError\<close>. It does not hold: the
  division \<^verbatim>\<open>0/0\<close> raises \<^verbatim>\<open>ZeroDivisionError\<close>.
\<close>

theorem action_mobility_no_moves_counterexample:
  "get_legal_moves tree_board stuck None = [] \<and>
   action_mobility tree_board (init stuck P1) stuck = Inl ZeroDivisionError \<and>
   action_mobility tree_board (init stuck P1) stuck \<noteq> Inl NoLegalMovesError"
  by (simp add: action_mobility_def tree_board_def stuck_def)

text \<open>
  Claim C7, amended. On every state where the query for the legal moves returns none,
  \<open>action_mobility\<close> returns no value: it raises \<^verbatim>\<open>ZeroDivisionError\<close>. Nothing
  catches it: \<open>action_focus\<close>, which calls it, raises the same.
\<close>

theorem action_mobility_no_moves:
  assumes "get_legal_moves B state None = []"
  shows "action_mobility B self state = Inl ZeroDivisionError \<and>
         action_focus B self state = Inl ZeroDivisionError"
  using assms by (simp add: action_focus_def action_mobility_empty)

theorem action_mobility_no_moves_witness:
  "get_legal_moves tree_board stuck None = [] \<and>
   action_mobility tree_board (init stuck P2) stuck = Inl ZeroDivisionError \<and>
   action_focus tree_board (init stuck P2) stuck = Inl ZeroDivisionError"
proof -
  have h: "get_legal_moves tree_board stuck None = []"
    by (simp add: tree_board_def stuck_def)
  from action_mobility_no_moves [OF h] h show ?thesis by simp
qed

section \<open>The weighted mobility differential\<close>

text \<open>
  Claim C10, as stated: for every state the value returned is (1 - weight) times the number
  of the active player's moves times the number of filled spaces. It does not hold for
  every weight, because each operation rounds. On \<open>three_moves\<close>, with 3 moves and 9
  filled spaces, and the weight 0.2, that is the double nearest to 1/5, the function
  returns 21.599999999999998. That is neither the exact product (1 - weight) * 3 * 9, nor
  that product computed in doubles, which is 21.6.
\<close>

theorem hugo_heuristic_weight_counterexample:
  "two_player tree_board three_moves \<and>
   length (get_legal_moves tree_board three_moves None) = 3 \<and>
   width tree_board three_moves * height tree_board three_moves
     - int (length (get_blank_spaces tree_board three_moves)) = 9 \<and>
   fl (1 / 5) = 3602879701896397 / 18014398509481984 \<and>
   the_super_duper_hugo_heuristic tree_board (init three_moves P1) three_moves
       (Some (fl (1 / 5))) =
     Inr (6079859496950169 / 281474976710656) \<and>
   (1 - fl (1 / 5)) * 3 * 9 = 389111007804810849 / 18014398509481984 \<and>
   fl (fl (fl (1 - fl (1 / 5)) * 3) * 9) = 3039929748475085 / 140737488355328 \<and>
   the_super_duper_hugo_heuristic tree_board (init three_moves P1) three_moves
       (Some (fl (1 / 5))) \<noteq>
     Inr ((1 - fl (1 / 5)) * 3 * 9) \<and>
   the_super_duper_hugo_heuristic tree_board (init three_moves P1) three_moves
       (Some (fl (1 / 5))) \<noteq>
     Inr (fl (fl (fl (1 - fl (1 / 5)) * 3) * 9))"
proof -
  have w: "fl (1 / 5) = 3602879701896397 / 18014398509481984"
    by (simp add: fl_def round_even_def)
  have tp: "two_player tree_board three_moves"
    by (rule tree_board_two_player)
  have n: "length (get_legal_moves tree_board three_moves None) = 3"
    by (simp add: tree_board_def three_moves_def)
  have f: "width tree_board three_moves * height tree_board three_moves
             - int (length (get_blank_spaces tree_board three_moves)) = 9"
    by (simp add: tree_board_def three_moves_def)
  have p1: "fl (3602879701896397 / 18014398509481984 * 3) =
              1351079888211149 / 2251799813685248"
    by (simp add: fl_def round_even_def)
  have p2: "fl (3 - 1351079888211149 / 2251799813685248) =
              5404319552844595 / 2251799813685248"
    by (simp add: fl_def round_even_def)
  have p3: "fl (5404319552844595 / 2251799813685248 * 9) =
              6079859496950169 / 281474976710656"
    by (simp add: fl_def round_even_def)
  have i3: "fl 3 = 3" and i9: "fl 9 = 9"
    by (simp_all add: fl_def round_even_def)
  have ops: "fl (fl (fl 3 - fl (fl (1 / 5) * fl 3)) * fl 9) =
               6079859496950169 / 281474976710656"
    by (simp only: w i3 i9 p1 p2 p3)
  have "the_super_duper_hugo_heuristic tree_board (init three_moves P1) three_moves
          (Some (fl (1 / 5))) =
        Inr (fl (fl (fl 3 - fl (fl (1 / 5) * fl 3)) * fl 9))"
    unfolding the_super_duper_hugo_heuristic_def Let_def filled_spaces_def n f
    by (simp add: tree_board_def three_moves_def del: fl_pos.simps fl_big.simps)
  then have code: "the_super_duper_hugo_heuristic tree_board (init three_moves P1) three_moves
                (Some (fl (1 / 5))) =
              Inr (6079859496950169 / 281474976710656)"
    by (simp only: ops)
  have exact: "(1 - fl (1 / 5)) * 3 * 9 = 389111007804810849 / 18014398509481984"
    by (simp add: w)
  have q1: "fl (1 - 3602879701896397 / 18014398509481984) =
              3602879701896397 / 4503599627370496"
    by (simp add: fl_def round_even_def)
  have q2: "fl (3602879701896397 / 4503599627370496 * 3) =
              1351079888211149 / 562949953421312"
    by (simp add: fl_def round_even_def)
  have q3: "fl (1351079888211149 / 562949953421312 * 9) =
              3039929748475085 / 140737488355328"
    by (simp add: fl_def round_even_def)
  have dbl: "fl (fl (fl (1 - fl (1 / 5)) * 3) * 9) = 3039929748475085 / 140737488355328"
    by (simp only: w q1 q2 q3)
  have d1: "the_super_duper_hugo_heuristic tree_board (init three_moves P1) three_moves
              (Some (fl (1 / 5))) \<noteq>
            Inr ((1 - fl (1 / 5)) * 3 * 9)"
    by (simp only: code exact) simp
  have d2: "the_super_duper_hugo_heuristic tree_board (init three_moves P1) three_moves
              (Some (fl (1 / 5))) \<noteq>
            Inr (fl (fl (fl (1 - fl (1 / 5)) * 3) * 9))"
    by (simp only: code dbl) simp
  from tp n f w code exact dbl d1 d2 show ?thesis
    by (intro conjI)
qed

text \<open>
  Claim C10, amended. On a state of a two-player board, the player whose moves
  \<open>the_super_duper_hugo_heuristic\<close> counts as the opponent's is the opponent of the
  inactive player, that is the active player: the two counts are of the same list. With
  n the number of the active player's legal moves and f the width times the height minus
  the number of blank spaces, the value returned is (n - weight * n) * f, each operation
  rounded to a double. With the default weight 2.5, the weight that \<open>score\<close> passes, and
  n and f below \<open>2^24\<close> in magnitude, no operation rounds and the value is
  (1 - 2.5) * n * f.
\<close>

theorem hugo_heuristic_own_moves:
  assumes "two_player B state"
  shows "get_legal_moves B state (Some (get_opponent B state (inactive_player B state))) =
           get_legal_moves B state None \<and>
         the_super_duper_hugo_heuristic B self state weight_arg =
           Inr (fl (fl (fl (real (length (get_legal_moves B state None)))
                        - fl ((case weight_arg of None \<Rightarrow> 2.5 | Some w \<Rightarrow> w)
                              * fl (real (length (get_legal_moves B state None)))))
                    * fl (real_of_int
                            (width B state * height B state
                               - int (length (get_blank_spaces B state)))))) \<and>
         (weight_arg = None \<and>
          length (get_legal_moves B state None) < 2 ^ 24 \<and>
          \<bar>width B state * height B state - int (length (get_blank_spaces B state))\<bar> < 2 ^ 24
          \<longrightarrow>
            the_super_duper_hugo_heuristic B self state weight_arg =
              Inr ((1 - 2.5) * real (length (get_legal_moves B state None))
                     * real_of_int
                         (width B state * height B state
                            - int (length (get_blank_spaces B state)))))"
proof -
  define n where "n = length (get_legal_moves B state None)"
  define f where "f = width B state * height B state - int (length (get_blank_spaces B state))"
  have same: "get_legal_moves B state (Some (get_opponent B state (inactive_player B state))) =
                get_legal_moves B state None"
    using assms by (simp add: two_player_def)
  have gen: "the_super_duper_hugo_heuristic B self state weight_arg =
               Inr (fl (fl (fl (real n)
                            - fl ((case weight_arg of None \<Rightarrow> 2.5 | Some w \<Rightarrow> w) * fl (real n)))
                        * fl (real_of_int f)))"
    unfolding the_super_duper_hugo_heuristic_def Let_def same filled_spaces_def n_def f_def
    by simp
  have exact: "the_super_duper_hugo_heuristic B self state weight_arg =
                 Inr ((1 - 2.5) * real n * real_of_int f)"
    if none: "weight_arg = None" and nb: "n < 2 ^ 24" and fb: "\<bar>f\<bar> < 2 ^ 24"
  proof -
    have nb': "int n < 2 ^ 24"
      using nb by (metis of_nat_less_iff of_nat_numeral of_nat_power)
    have e1: "fl (real n) = real n"
      using nb' by (intro fl_exact [of _ 0 "int n"]) simp_all
    have e2: "fl (2.5 * real n) = 2.5 * real n"
      using nb' by (intro fl_exact [of _ 1 "5 * int n"]) simp_all
    have e3: "fl (real n - 2.5 * real n) = real n - 2.5 * real n"
      using nb' by (intro fl_exact [of _ 1 "- 3 * int n"]) simp_all
    have e4: "fl (real_of_int f) = real_of_int f"
      using fb by (intro fl_exact [of _ 0 f]) simp_all
    have "\<bar>int n * f\<bar> = int n * \<bar>f\<bar>"
      by (simp add: abs_mult)
    also have "\<dots> \<le> 2 ^ 24 * 2 ^ 24"
      using nb' fb by (intro mult_mono) simp_all
    finally have prod: "\<bar>int n * f\<bar> \<le> 2 ^ 48" by simp
    have "\<bar>- 3 * (int n * f)\<bar> = 3 * \<bar>int n * f\<bar>"
      by (simp add: abs_mult)
    with prod have bound: "\<bar>- 3 * (int n * f)\<bar> < 2 ^ 53" by simp
    have e5: "fl ((real n - 2.5 * real n) * real_of_int f) =
                (real n - 2.5 * real n) * real_of_int f"
      using bound by (intro fl_exact [of _ 1 "- 3 * (int n * f)"]) (simp_all add: algebra_simps)
    have ops: "fl (fl (fl (real n) - fl (2.5 * fl (real n))) * fl (real_of_int f)) =
                 (real n - 2.5 * real n) * real_of_int f"
      by (simp only: e1 e2 e3 e4 e5)
    have "the_super_duper_hugo_heuristic B self state weight_arg =
            Inr (fl (fl (fl (real n) - fl (2.5 * fl (real n))) * fl (real_of_int f)))"
      using gen by (simp only: none option.case)
    then have "the_super_duper_hugo_heuristic B self state weight_arg =
            Inr ((real n - 2.5 * real n) * real_of_int f)"
      by (simp only: ops)
    then show ?thesis by (simp add: algebra_simps)
  qed
  from same gen exact show ?thesis
    unfolding n_def f_def by blast
qed

text \<open>
  On \<open>endgame\<close>, 6 of the 16 cells are blank and 10 are filled, and the active player
  has 3 moves: the value is (1 - 2.5) * 3 * 10 = -45.
\<close>

theorem hugo_heuristic_own_moves_witness:
  "two_player tree_board endgame \<and>
   length (get_legal_moves tree_board endgame None) = 3 \<and>
   length (get_blank_spaces tree_board endgame) = 6 \<and>
   width tree_board endgame * height tree_board endgame
     - int (length (get_blank_spaces tree_board endgame)) = 10 \<and>
   the_super_duper_hugo_heuristic tree_board (init endgame P1) endgame None = Inr (- 45)"
proof -
  have h: "two_player tree_board endgame"
    by (rule tree_board_two_player)
  have l: "length (get_legal_moves tree_board endgame None) = 3"
    by (simp add: tree_board_def endgame_def)
  have b: "length (get_blank_spaces tree_board endgame) = 6"
    by (simp add: tree_board_def endgame_def)
  have f: "width tree_board endgame * height tree_board endgame
             - int (length (get_blank_spaces tree_board endgame)) = 10"
    by (simp add: tree_board_def endgame_def)
  from hugo_heuristic_own_moves [OF h, of "init endgame P1" None]
  have "length (get_legal_moves tree_board endgame None) < 2 ^ 24 \<and>
        \<bar>width tree_board endgame * height tree_board endgame
           - int (length (get_blank_spaces tree_board endgame))\<bar> < 2 ^ 24 \<longrightarrow>
        the_super_duper_hugo_heuristic tree_board (init endgame P1) endgame None =
          Inr ((1 - 2.5) * real (length (get_legal_moves tree_board endgame None))
                 * real_of_int
                     (width tree_board endgame * height tree_board endgame
                        - int (length (get_blank_spaces tree_board endgame))))"
    by blast
  then have "the_super_duper_hugo_heuristic tree_board (init endgame P1) endgame None =
          Inr ((1 - 2.5) * 3 * 10)"
    by (simp only: l f) simp
  then have v: "the_super_duper_hugo_heuristic tree_board (init endgame P1) endgame None =
          Inr (- 45)"
    by simp
  from h l b f v show ?thesis
    by (intro conjI)
qed

text \<open>
  Claim C3. The docstring of \<open>the_super_duper_hugo_heuristic\<close> and the specification
  say that the moves weighted are the opponent's. On \<open>midgame\<close> the active player
  \<open>P1\<close> has 4 legal moves, its opponent \<open>P2\<close> has 2, and 8 spaces are filled: the
  claim gives (4 - 2.5 * 2) * 8 = -8, and the function returns (4 - 2.5 * 4) * 8 = -48.
\<close>

theorem hugo_heuristic_midgame:
  "active_player tree_board midgame = P1 \<and>
   get_opponent tree_board midgame P1 = P2 \<and>
   length (get_legal_moves tree_board midgame (Some P1)) = 4 \<and>
   length (get_legal_moves tree_board midgame (Some P2)) = 2 \<and>
   filled_spaces tree_board midgame = 8 \<and>
   the_super_duper_hugo_heuristic tree_board (init midgame P1) midgame None = Inr (- 48) \<and>
   the_super_duper_hugo_heuristic tree_board (init midgame P1) midgame None \<noteq> Inr (- 8)"
  by (simp add: the_super_duper_hugo_heuristic_def filled_spaces_def tree_board_def midgame_def
        fl_def round_even_def)

section \<open>argmax\<close>

text \<open>
  Claim C4. The docstring of \<open>argmax\<close> and the specification say that it returns an
  element of the greatest score, the first such one: 7 on 3, 7, 2 and 5 on 5 under the
  identity. The function takes as the starting score that of the whole list,
  \<^verbatim>\<open>fn(seq)\<close>, in place of that of its first element. Under the identity the starting
  score is the list itself, and the comparison of the int 3 with it raises
  \<^verbatim>\<open>TypeError\<close>. Under \<open>int_score\<close>, where the list scores 0, the function returns
  the first element -3 of -3, -1, -2, whose greatest element is -1. On the empty list
  \<^verbatim>\<open>seq[0]\<close> raises \<^verbatim>\<open>IndexError\<close>.
\<close>

theorem argmax_starting_score:
  "argmax [PInt 3, PInt 7, PInt 2] Inr = Inl TypeError \<and>
   argmax [PInt 5] Inr = Inl TypeError \<and>
   argmax [PInt (- 3), PInt (- 1), PInt (- 2)] int_score = Inr (PInt (- 3)) \<and>
   argmax [] Inr = Inl IndexError"
  by (simp add: argmax_def int_score_def)


end
